theory Spec2Isabelle
  imports Complex_Main "HOL-Library.Word"
begin

section \<open>Values\<close>

text \<open>
  The handlers of \<^verbatim>\<open>backend_prod_ready.py\<close> work on what
  \<^verbatim>\<open>request.get_json()\<close> decodes: \<^verbatim>\<open>None\<close>, booleans, unbounded
  integers, floats, strings, lists and dictionaries with string keys. A float is either
  a finite number (every finite float is a rational; the model allows every rational,
  which is more than the interpreter has), an infinity or a NaN: Python's decoder
  accepts \<^verbatim>\<open>Infinity\<close>, \<^verbatim>\<open>-Infinity\<close> and \<^verbatim>\<open>NaN\<close>. Strings are byte
  lists (UTF-8). A dictionary is an association list read from the left.
\<close>

datatype pyfloat = Finite rat | PosInf | NegInf | NaN

datatype json =
    JNull
  | JBool bool
  | JInt int
  | JFloat pyfloat
  | JStr string
  | JList "json list"
  | JObj "(string \<times> json) list"

type_synonym bytes = "8 word list"

text \<open>
  Exceptions are values. The string of a constructor says where it was raised; the text
  \<^verbatim>\<open>str(e)\<close> of an exception is the interpreter's and the libraries' (it changes
  between versions), so it is a component of the environment below.
\<close>

datatype exn =
    AttributeError string string
  | TypeError string
  | ValueError string
  | OverflowError string
  | KeyError string
  | FileNotFoundError string
  | LibraryError string

section \<open>The environment\<close>

text \<open>
  The module-level configuration (lines 41-51 of the source, read once from the process
  environment) and the collaborators the module calls but does not define: the Razorpay
  SDK, reportlab's canvas together with the disk, the SMTP session, and the parts of the
  interpreter whose result the source only passes on. \<^verbatim>\<open>None\<close> from a collaborator
  means it returned normally, \<^verbatim>\<open>Some e\<close> or \<^verbatim>\<open>Inl e\<close> that it raised \<open>e\<close>.
\<close>

datatype entry = RegularFile bytes | NotServable

type_synonym cert_dir = "string \<Rightarrow> entry option"

record message =
  msg_from :: string
  msg_to :: json
  msg_subject :: string
  msg_body :: string
  attachment_name :: string
  attachment_payload :: bytes

record env =
  USE_RAZORPAY :: bool
  RAZORPAY_KEY_ID :: string
  SMTP_HOST :: string
  SMTP_PORT :: int
  SMTP_USER :: string
  SMTP_PASS :: string
  FROM_EMAIL :: string
  verify_payment_signature :: "json \<Rightarrow> json \<Rightarrow> json \<Rightarrow> exn option"
  order_create :: "json \<Rightarrow> exn + json"
  canvas_save :: "cert_dir \<Rightarrow> string \<Rightarrow> string list \<Rightarrow> exn + bytes"
  formataddr :: "string \<Rightarrow> string \<Rightarrow> exn + string"
  smtp_send :: "message \<Rightarrow> exn option"
  exn_text :: "exn \<Rightarrow> string"
  str_other :: "json \<Rightarrow> string"
  int_non_ascii :: "string \<Rightarrow> int option"
  int_max_str_digits :: nat

text \<open>
  What one request reads from the clock and the random source: \<^verbatim>\<open>int(time.time())\<close>
  where the handler reads it (lines 94 and 159), the same where
  \<^verbatim>\<open>generate_certificate\<close> reads it (line 216), the date
  \<^verbatim>\<open>datetime.utcnow().strftime("%Y-%m-%d")\<close> (line 214) and
  \<^verbatim>\<open>uuid.uuid4().hex\<close> (line 75).
\<close>

record readings =
  time_handler :: int
  time_certificate :: int
  utc_date :: string
  uuid_hex :: string

section \<open>The interpreter's operations the source uses\<close>

definition and_then :: "exn + 'a \<Rightarrow> ('a \<Rightarrow> exn + 'b) \<Rightarrow> exn + 'b" where
  "and_then m f = (case m of Inl e \<Rightarrow> Inl e | Inr x \<Rightarrow> f x)"

text \<open>\<^verbatim>\<open>try: m  except Exception as e: h(e)\<close>. Every exception of the model is an
  \<^verbatim>\<open>Exception\<close>; \<^verbatim>\<open>KeyboardInterrupt\<close> and \<^verbatim>\<open>SystemExit\<close> are not modelled.\<close>

definition try_except :: "exn + 'a \<Rightarrow> (exn \<Rightarrow> exn + 'a) \<Rightarrow> exn + 'a" where
  "try_except m h = (case m of Inl e \<Rightarrow> h e | Inr x \<Rightarrow> Inr x)"

fun type_name :: "json \<Rightarrow> string" where
  "type_name JNull = ''NoneType''"
| "type_name (JBool b) = ''bool''"
| "type_name (JInt n) = ''int''"
| "type_name (JFloat f) = ''float''"
| "type_name (JStr s) = ''str''"
| "type_name (JList xs) = ''list''"
| "type_name (JObj kvs) = ''dict''"

text \<open>Truth value testing: \<^verbatim>\<open>bool(v)\<close>. A NaN is true.\<close>

fun truthy :: "json \<Rightarrow> bool" where
  "truthy JNull = False"
| "truthy (JBool b) = b"
| "truthy (JInt n) = (n \<noteq> 0)"
| "truthy (JFloat (Finite q)) = (q \<noteq> 0)"
| "truthy (JFloat PosInf) = True"
| "truthy (JFloat NegInf) = True"
| "truthy (JFloat NaN) = True"
| "truthy (JStr s) = (s \<noteq> [])"
| "truthy (JList xs) = (xs \<noteq> [])"
| "truthy (JObj kvs) = (kvs \<noteq> [])"

text \<open>\<^verbatim>\<open>request.get_json() or {}\<close>\<close>

definition or_empty :: "json \<Rightarrow> json" where
  "or_empty v = (if truthy v then v else JObj [])"

text \<open>\<^verbatim>\<open>d.get(key, default)\<close>: only a dictionary has the method.\<close>

fun py_get :: "json \<Rightarrow> string \<Rightarrow> json \<Rightarrow> exn + json" where
  "py_get (JObj kvs) k d = Inr (case map_of kvs k of Some v \<Rightarrow> v | None \<Rightarrow> d)"
| "py_get v k d = Inl (AttributeError (type_name v) ''get'')"

text \<open>\<^verbatim>\<open>d[key]\<close> with a string key.\<close>

fun py_subscript :: "json \<Rightarrow> string \<Rightarrow> exn + json" where
  "py_subscript (JObj kvs) k = (case map_of kvs k of Some v \<Rightarrow> Inr v | None \<Rightarrow> Inl (KeyError k))"
| "py_subscript v k = Inl (TypeError (type_name v))"

subsection \<open>Decimal text of an integer\<close>

text \<open>The character of a digit; it is applied to numbers below ten only.\<close>

definition digit_char :: "nat \<Rightarrow> char" where
  "digit_char d = ''0123456789'' ! d"

fun str_nat :: "nat \<Rightarrow> string" where
  "str_nat n = (if n < 10 then [digit_char n] else str_nat (n div 10) @ [digit_char (n mod 10)])"

definition str_int :: "int \<Rightarrow> string" where
  "str_int i = (if i < 0 then CHR ''-'' # str_nat (nat (- i)) else str_nat (nat i))"

text \<open>\<^verbatim>\<open>str(v)\<close> as an f-string applies it. The text of a float, a list or a
  dictionary is the interpreter's.\<close>

definition py_str :: "env \<Rightarrow> json \<Rightarrow> string" where
  "py_str E v =
     (case v of
        JStr s \<Rightarrow> s
      | JInt n \<Rightarrow> str_int n
      | JBool b \<Rightarrow> (if b then ''True'' else ''False'')
      | JNull \<Rightarrow> ''None''
      | _ \<Rightarrow> str_other E v)"

subsection \<open>The constructor int\<close>

text \<open>The whitespace \<^verbatim>\<open>int\<close> skips around an ASCII literal: tab to carriage return
  (9 to 13) and the space. The separators 28 to 31 are not skipped: a string of the byte
  28 and the digit 5 is no literal, and \<^verbatim>\<open>int\<close> raises on it.\<close>

definition is_space :: "char \<Rightarrow> bool" where
  "is_space c = (let n = (of_char c :: nat) in (9 \<le> n \<and> n \<le> 13) \<or> n = 32)"

definition is_digit :: "char \<Rightarrow> bool" where
  "is_digit c = (let n = (of_char c :: nat) in 48 \<le> n \<and> n \<le> 57)"

definition digit_val :: "char \<Rightarrow> int" where
  "digit_val c = int (of_char c) - 48"

definition int_strip :: "string \<Rightarrow> string" where
  "int_strip s = rev (dropWhile is_space (rev (dropWhile is_space s)))"

text \<open>Digits, with single underscores between digits only.\<close>

fun digits_ok :: "string \<Rightarrow> bool" where
  "digits_ok [] = False"
| "digits_ok [c] = is_digit c"
| "digits_ok (c # d # cs) =
     (if is_digit c then (if d = CHR ''_'' then digits_ok cs else digits_ok (d # cs))
      else False)"

definition digits_value :: "string \<Rightarrow> int" where
  "digits_value s = foldl (\<lambda>a c. a * 10 + digit_val c) 0 (filter is_digit s)"

text \<open>
  \<^verbatim>\<open>int(s)\<close> for a string: surrounding whitespace is dropped, a sign may lead. With a
  limit set (\<^verbatim>\<open>sys.int_max_str_digits\<close>, 0 for none), more digits than the limit are a
  \<^verbatim>\<open>ValueError\<close>. A string with a byte outside ASCII (other scripts' digits and
  spaces) is left to the interpreter.
\<close>

definition int_of_string :: "env \<Rightarrow> string \<Rightarrow> exn + int" where
  "int_of_string E s =
     (if list_ex (\<lambda>c. 128 \<le> (of_char c :: nat)) s then
        (case int_non_ascii E s of None \<Rightarrow> Inl (ValueError ''int'') | Some n \<Rightarrow> Inr n)
      else
        (let t = int_strip s;
             neg = (t \<noteq> [] \<and> hd t = CHR ''-'');
             ds = (if t \<noteq> [] \<and> (hd t = CHR ''-'' \<or> hd t = CHR ''+'') then tl t else t)
         in if \<not> digits_ok ds then Inl (ValueError ''int'')
            else if 0 < int_max_str_digits E
                    \<and> int_max_str_digits E < length (filter is_digit ds)
            then Inl (ValueError ''int'')
            else Inr (if neg then - digits_value ds else digits_value ds)))"

text \<open>\<^verbatim>\<open>int(x)\<close> for a float: towards zero; an infinity and a NaN raise.\<close>

definition trunc :: "rat \<Rightarrow> int" where
  "trunc q = (if q < 0 then - \<lfloor>- q\<rfloor> else \<lfloor>q\<rfloor>)"

fun py_int :: "env \<Rightarrow> json \<Rightarrow> exn + int" where
  "py_int E (JInt n) = Inr n"
| "py_int E (JBool b) = Inr (if b then 1 else 0)"
| "py_int E (JFloat (Finite q)) = Inr (trunc q)"
| "py_int E (JFloat NaN) = Inl (ValueError ''int'')"
| "py_int E (JFloat PosInf) = Inl (OverflowError ''int'')"
| "py_int E (JFloat NegInf) = Inl (OverflowError ''int'')"
| "py_int E (JStr s) = int_of_string E s"
| "py_int E v = Inl (TypeError ''int'')"

subsection \<open>String methods\<close>

text \<open>\<^verbatim>\<open>s.replace("/", "_")\<close>\<close>

definition replace_slash :: "string \<Rightarrow> string" where
  "replace_slash s = map (\<lambda>c. if c = CHR ''/'' then CHR ''_'' else c) s"

text \<open>\<^verbatim>\<open>s.strip()\<close> on ASCII text: what \<^verbatim>\<open>str.isspace\<close> holds of goes, which is
  9 to 13, the separators 28 to 31 and the space.\<close>

definition is_str_space :: "char \<Rightarrow> bool" where
  "is_str_space c =
     (let n = (of_char c :: nat) in (9 \<le> n \<and> n \<le> 13) \<or> (28 \<le> n \<and> n \<le> 32))"

definition strip :: "string \<Rightarrow> string" where
  "strip s = rev (dropWhile is_str_space (rev (dropWhile is_str_space s)))"

text \<open>\<^verbatim>\<open>s.split(c)\<close> for a separator of one character.\<close>

fun split_on :: "char \<Rightarrow> string \<Rightarrow> string list" where
  "split_on c [] = [[]]"
| "split_on c (x # xs) =
     (if x = c then [] # split_on c xs
      else (case split_on c xs of [] \<Rightarrow> [[x]] | y # ys \<Rightarrow> (x # y) # ys))"

section \<open>The program\<close>

datatype content = JsonBody json | FileBody string bytes | NotFoundPage

record response =
  status :: nat
  content :: content

definition respond :: "nat \<Rightarrow> content \<Rightarrow> response" where
  "respond c b = \<lparr>status = c, content = b\<rparr>"

definition newline :: char where
  "newline = CHR 0x0A"

subsection \<open>\<^verbatim>\<open>root\<close> and \<^verbatim>\<open>create_order\<close> (lines 70-110)\<close>

definition root :: "env \<Rightarrow> response" where
  "root E =
     respond 200 (JsonBody (JObj
       [(''status'', JStr ''ok''),
        (''mode'', JStr (if USE_RAZORPAY E then ''razorpay'' else ''dummy''))]))"

definition fake_order :: "env \<Rightarrow> readings \<Rightarrow> int \<Rightarrow> json" where
  "fake_order E R amount_inr =
     JObj [(''id'', JStr (''order_fake_'' @ take 12 (uuid_hex R))),
           (''amount'', JInt (amount_inr * 100)),
           (''currency'', JStr ''INR''),
           (''key'', JStr (RAZORPAY_KEY_ID E)),
           (''mode'', JStr ''dummy'')]"

definition order_data :: "readings \<Rightarrow> int \<Rightarrow> json" where
  "order_data R amount =
     JObj [(''amount'', JInt (amount * 100)),
           (''currency'', JStr ''INR''),
           (''receipt'', JStr (''rcpt_'' @ str_int (time_handler R))),
           (''payment_capture'', JInt 1)]"

text \<open>The first \<^verbatim>\<open>try\<close> (lines 82-85) covers the read of the amount only; the second
  (lines 90-107) the call of the gateway and the reads of its answer.\<close>

definition create_order :: "env \<Rightarrow> readings \<Rightarrow> json \<Rightarrow> exn + response" where
  "create_order E R body =
     (let data = or_empty body in
      case and_then (py_get data ''amount'' (JInt 0)) (py_int E) of
        Inl e \<Rightarrow> Inr (respond 400 (JsonBody (JObj [(''error'', JStr ''Invalid amount'')])))
      | Inr amount \<Rightarrow>
          if amount \<le> 0 then
            Inr (respond 400 (JsonBody (JObj [(''error'', JStr ''Amount must be > 0'')])))
          else if USE_RAZORPAY E then
            try_except
              (and_then (order_create E (order_data R amount)) (\<lambda>order.
               and_then (py_subscript order ''id'') (\<lambda>order_id.
               and_then (py_subscript order ''amount'') (\<lambda>order_amount.
               and_then (py_subscript order ''currency'') (\<lambda>order_currency.
                 Inr (respond 200 (JsonBody (JObj
                   [(''id'', order_id),
                    (''amount'', order_amount),
                    (''currency'', order_currency),
                    (''key'', JStr (RAZORPAY_KEY_ID E)),
                    (''mode'', JStr ''razorpay'')]))))))))
              (\<lambda>e. Inr (respond 500 (JsonBody (JObj
                   [(''error'', JStr ''Razorpay order creation failed''),
                    (''details'', JStr (exn_text E e))]))))
          else Inr (respond 200 (JsonBody (fake_order E R amount))))"

subsection \<open>\<^verbatim>\<open>verify_signature\<close> (lines 112-145)\<close>

definition verify_signature :: "env \<Rightarrow> json \<Rightarrow> exn + (bool \<times> string option)" where
  "verify_signature E payload_dict =
     try_except
       (and_then (py_get payload_dict ''razorpay_order_id'' JNull) (\<lambda>razorpay_order_id.
        and_then (py_get payload_dict ''razorpay_payment_id'' JNull) (\<lambda>razorpay_payment_id.
        and_then (py_get payload_dict ''razorpay_signature'' JNull) (\<lambda>razorpay_signature.
          if \<not> (truthy razorpay_order_id \<and> truthy razorpay_payment_id
                 \<and> truthy razorpay_signature)
          then Inr (False, Some ''Missing fields'')
          else if USE_RAZORPAY E then
            try_except
              (case verify_payment_signature E razorpay_order_id razorpay_payment_id
                      razorpay_signature of
                 Some e \<Rightarrow> Inl e
               | None \<Rightarrow> Inr (True, None))
              (\<lambda>e. Inr (False, Some (exn_text E e)))
          else
            and_then (py_get payload_dict ''simulate'' JNull) (\<lambda>simulate.
              if simulate = JBool True then Inr (True, None)
              else if razorpay_signature = JStr ''sim_signature'' then Inr (True, None)
              else Inr (False, Some ''Dummy mode requires simulate:true or sim_signature''))))))
       (\<lambda>e. Inr (False, Some (exn_text E e)))"

subsection \<open>\<^verbatim>\<open>generate_certificate\<close> (lines 210-256)\<close>

definition certificate_filename :: "string \<Rightarrow> int \<Rightarrow> string" where
  "certificate_filename order_id t =
     ''certificate_'' @ replace_slash order_id @ ''_'' @ str_int t @ ''.pdf''"

definition certificate_text :: "env \<Rightarrow> json \<Rightarrow> int \<Rightarrow> string \<Rightarrow> string \<Rightarrow> string" where
  "certificate_text E name amount order_id now =
     ''This certificate is proudly presented to'' @ [newline, newline]
     @ py_str E name @ [newline, newline]
     @ ''for supporting our mission through a donation of INR '' @ str_int amount @ ''.''
     @ [newline]
     @ ''Order ID: '' @ order_id @ ''    Date: '' @ now"

text \<open>
  A value that is not a string has no \<^verbatim>\<open>replace\<close> (line 215). The drawing calls are
  the same for every certificate but for the text lines; \<open>canvas_save\<close> stands for
  them and for the write of the file (lines 219-255): the bytes written, or the
  exception. A file is written under its name in the certificate directory: the name has
  no \<^verbatim>\<open>/\<close> left.
\<close>

definition generate_certificate ::
    "env \<Rightarrow> readings \<Rightarrow> cert_dir \<Rightarrow> json \<Rightarrow> int \<Rightarrow> json \<Rightarrow> exn + (string \<times> cert_dir)" where
  "generate_certificate E R fs name amount order_id =
     (case order_id of
        JStr oid \<Rightarrow>
          (let filename = certificate_filename oid (time_certificate R);
               text_lines = split_on newline (certificate_text E name amount oid (utc_date R))
           in case canvas_save E fs filename text_lines of
                Inl e \<Rightarrow> Inl e
              | Inr written \<Rightarrow> Inr (filename, fs(filename \<mapsto> RegularFile written)))
      | _ \<Rightarrow> Inl (AttributeError (type_name order_id) ''replace''))"

subsection \<open>\<^verbatim>\<open>send_email_with_attachment\<close> (lines 259-283)\<close>

text \<open>With a \<^verbatim>\<open><\<close> in the address, \<^verbatim>\<open>split("<")\<close> has at least two parts.\<close>

definition from_header :: "env \<Rightarrow> exn + string" where
  "from_header E =
     (let f = FROM_EMAIL E in
      if CHR ''<'' \<in> set f \<and> CHR ''>'' \<in> set f then
        formataddr E (strip (hd (split_on (CHR ''<'') f)))
          (strip (hd (split_on (CHR ''>'') (hd (tl (split_on (CHR ''<'') f))))))
      else Inr f)"

text \<open>
  The attachment is read from the certificate directory, where its path is its name.
  \<open>smtp_send\<close> stands for the MIME composition and the SMTP session (connection,
  STARTTLS, login, delivery).
\<close>

definition send_email_with_attachment ::
    "env \<Rightarrow> cert_dir \<Rightarrow> json \<Rightarrow> string \<Rightarrow> string \<Rightarrow> string \<Rightarrow> exn option" where
  "send_email_with_attachment E fs to_email subject body attachment_path =
     (case from_header E of
        Inl e \<Rightarrow> Some e
      | Inr sender \<Rightarrow>
          (case fs attachment_path of
             Some (RegularFile payload) \<Rightarrow>
               smtp_send E \<lparr>msg_from = sender, msg_to = to_email, msg_subject = subject,
                            msg_body = body, attachment_name = attachment_path,
                            attachment_payload = payload\<rparr>
           | _ \<Rightarrow> Some (FileNotFoundError attachment_path)))"

subsection \<open>\<^verbatim>\<open>verify_payment\<close> (lines 147-200)\<close>

text \<open>A call of \<^verbatim>\<open>send_email_with_attachment\<close>: recipient, subject, body, path.\<close>

type_synonym send_call = "json \<times> string \<times> string \<times> string"

record outcome =
  reply :: response
  disk :: cert_dir
  sent :: "send_call list"

definition email_subject :: string where
  "email_subject =
     ''Thank you for your donation '' @ [CHR 0xE2, CHR 0x80, CHR 0x94]
     @ '' Pratibha Charitable Trust''"

definition email_body :: "env \<Rightarrow> json \<Rightarrow> int \<Rightarrow> json \<Rightarrow> string" where
  "email_body E donor_name amount order_id =
     ''Dear '' @ py_str E donor_name @ '','' @ [newline, newline]
     @ ''Thank you for your generous donation of INR '' @ str_int amount @ ''.'' @ [newline]
     @ ''Please find your donation certificate attached.'' @ [newline, newline]
     @ ''Order ID: '' @ py_str E order_id @ [newline]
     @ ''Warm regards,'' @ [newline] @ ''Pratibha Charitable Trust''"

text \<open>
  Lines 163-197: with the certificate written under \<open>fname\<close>, the e-mail is tried when
  the donor gave an address and the SMTP settings are there; its failure is caught (lines
  169-187) and reported in the body of the reply.
\<close>

definition email_and_result ::
    "env \<Rightarrow> cert_dir \<Rightarrow> json \<Rightarrow> json \<Rightarrow> int \<Rightarrow> json \<Rightarrow> string \<Rightarrow> outcome" where
  "email_and_result E fs' donor_name donor_email amount order_id fname =
     (let cert_url = ''/certificate/'' @ fname;
          attempt = (truthy donor_email \<and> SMTP_HOST E \<noteq> [] \<and> SMTP_USER E \<noteq> []
                     \<and> SMTP_PASS E \<noteq> []);
          body_text = email_body E donor_name amount order_id;
          raised = (if attempt
                    then send_email_with_attachment E fs' donor_email email_subject
                           body_text fname
                    else None);
          email_sent = (attempt \<and> raised = None);
          email_err = (case raised of None \<Rightarrow> JNull | Some e \<Rightarrow> JStr (exn_text E e))
      in \<lparr>reply = respond 200 (JsonBody (JObj
                 [(''status'', JStr ''success''),
                  (''message'', JStr (if USE_RAZORPAY E then ''Payment verified''
                                      else ''Dummy payment accepted'')),
                  (''payment'', JObj [(''order_id'', order_id), (''amount'', JInt amount)]),
                  (''certificate_url'', JStr cert_url),
                  (''email_sent'', JBool email_sent),
                  (''email_error'', email_err)])),
          disk = fs',
          sent = (if attempt then [(donor_email, email_subject, body_text, fname)] else [])\<rparr>)"

text \<open>
  The block of lines 156-197, which runs once the signature is verified. The default of
  the outer \<^verbatim>\<open>get\<close> of line 159 is evaluated before the call.
\<close>

definition certificate_and_email :: "env \<Rightarrow> readings \<Rightarrow> cert_dir \<Rightarrow> json \<Rightarrow> exn + outcome" where
  "certificate_and_email E R fs payload =
     and_then (py_get payload ''name'' (JStr ''Donor'')) (\<lambda>donor_name.
     and_then (py_get payload ''email'' JNull) (\<lambda>donor_email.
     and_then (and_then (py_get payload ''amount'' (JInt 0)) (py_int E)) (\<lambda>amount.
     and_then (and_then
         (py_get payload ''order_id'' (JStr (''order_'' @ str_int (time_handler R))))
         (py_get payload ''razorpay_order_id'')) (\<lambda>order_id.
     and_then (generate_certificate E R fs donor_name amount order_id) (\<lambda>(fname, fs').
       Inr (email_and_result E fs' donor_name donor_email amount order_id fname))))))"

text \<open>
  When the block raises, the directory is the one before the request (a write that failed
  half-way is not modelled).
\<close>

definition verify_payment :: "env \<Rightarrow> readings \<Rightarrow> cert_dir \<Rightarrow> json \<Rightarrow> exn + outcome" where
  "verify_payment E R fs body =
     (let payload = or_empty body in
      and_then (verify_signature E payload) (\<lambda>(ok, err).
        if \<not> ok then
          Inr \<lparr>reply = respond 400 (JsonBody (JObj
                   [(''error'', JStr ''Signature verification failed''),
                    (''details'', (case err of None \<Rightarrow> JNull | Some m \<Rightarrow> JStr m))])),
               disk = fs, sent = []\<rparr>
        else
          try_except (certificate_and_email E R fs payload)
            (\<lambda>e. Inr \<lparr>reply = respond 500 (JsonBody (JObj
                         [(''error'', JStr ''Internal error generating certificate''),
                          (''details'', JStr (exn_text E e))])),
                      disk = fs, sent = []\<rparr>)))"

subsection \<open>\<^verbatim>\<open>serve_certificate\<close> (lines 202-207)\<close>

text \<open>
  The directory gives what \<^verbatim>\<open>CERT_DIR / filename\<close> is: nothing, a regular file of the
  certificate directory with its bytes, or something that exists and that
  \<^verbatim>\<open>send_from_directory\<close> refuses with \<^verbatim>\<open>NotFound\<close> (a directory, a path that
  leaves the certificate directory).
\<close>

definition path_exists :: "cert_dir \<Rightarrow> string \<Rightarrow> bool" where
  "path_exists fs filename = (fs filename \<noteq> None)"

definition send_from_directory :: "cert_dir \<Rightarrow> string \<Rightarrow> response" where
  "send_from_directory fs filename =
     (case fs filename of
        Some (RegularFile stored) \<Rightarrow> respond 200 (FileBody filename stored)
      | _ \<Rightarrow> respond 404 NotFoundPage)"

definition serve_certificate :: "cert_dir \<Rightarrow> string \<Rightarrow> response" where
  "serve_certificate fs filename =
     (if \<not> path_exists fs filename then respond 404 NotFoundPage
      else send_from_directory fs filename)"

section \<open>Reading requests and replies\<close>

text \<open>The field of a JSON object, when the value is an object and has the key.\<close>

definition field :: "json \<Rightarrow> string \<Rightarrow> json option" where
  "field v k = (case v of JObj kvs \<Rightarrow> map_of kvs k | _ \<Rightarrow> None)"

definition body_field :: "response \<Rightarrow> string \<Rightarrow> json option" where
  "body_field r k = (case content r of JsonBody j \<Rightarrow> field j k | _ \<Rightarrow> None)"

definition body_keys :: "response \<Rightarrow> string list" where
  "body_keys r = (case content r of JsonBody (JObj kvs) \<Rightarrow> map fst kvs | _ \<Rightarrow> [])"

text \<open>The amount a request body carries; a body without the field counts as 0, the
  default of line 83.\<close>

definition amount_of :: "json \<Rightarrow> json" where
  "amount_of body = (case field body ''amount'' of Some v \<Rightarrow> v | None \<Rightarrow> JInt 0)"

text \<open>A number that is at most zero (\<^verbatim>\<open>False\<close> is the number 0).\<close>

fun nonpositive :: "json \<Rightarrow> bool" where
  "nonpositive (JInt n) = (n \<le> 0)"
| "nonpositive (JBool b) = (\<not> b)"
| "nonpositive (JFloat (Finite q)) = (q \<le> 0)"
| "nonpositive (JFloat NegInf) = True"
| "nonpositive v = False"

text \<open>An amount that does not parse as an integer, or parses as one that is at most
  zero.\<close>

definition unparseable :: "env \<Rightarrow> json \<Rightarrow> bool" where
  "unparseable E v = (case py_int E v of Inl e \<Rightarrow> True | Inr n \<Rightarrow> False)"

definition parses_nonpositive :: "env \<Rightarrow> json \<Rightarrow> bool" where
  "parses_nonpositive E v = (case py_int E v of Inl e \<Rightarrow> False | Inr n \<Rightarrow> n \<le> 0)"

text \<open>The three required fields of a verification payload.\<close>

definition field_truthy :: "json \<Rightarrow> string \<Rightarrow> bool" where
  "field_truthy p k = (case field p k of Some v \<Rightarrow> truthy v | None \<Rightarrow> False)"

definition required_fields :: "json \<Rightarrow> bool" where
  "required_fields p =
     (field_truthy p ''razorpay_order_id'' \<and> field_truthy p ''razorpay_payment_id''
      \<and> field_truthy p ''razorpay_signature'')"

definition field_missing :: "json \<Rightarrow> bool" where
  "field_missing p =
     (field p ''razorpay_order_id'' = None \<or> field p ''razorpay_payment_id'' = None
      \<or> field p ''razorpay_signature'' = None)"

definition simulate_true :: "json \<Rightarrow> bool" where
  "simulate_true p = (field p ''simulate'' = Some (JBool True))"

definition signature_sim :: "json \<Rightarrow> bool" where
  "signature_sim p = (field p ''razorpay_signature'' = Some (JStr ''sim_signature''))"

text \<open>The arguments the handler passes to the gateway's check: the three fields, each
  \<^verbatim>\<open>None\<close> when the payload has none (lines 119-121).\<close>

definition field_or_null :: "json \<Rightarrow> string \<Rightarrow> json" where
  "field_or_null p k = (case field p k of Some v \<Rightarrow> v | None \<Rightarrow> JNull)"

definition gateway_check :: "env \<Rightarrow> json \<Rightarrow> exn option" where
  "gateway_check E p =
     verify_payment_signature E (field_or_null p ''razorpay_order_id'')
       (field_or_null p ''razorpay_payment_id'') (field_or_null p ''razorpay_signature'')"

text \<open>A signature that does not pass: in Razorpay mode the check of the SDK raises on the
  three fields; in dummy mode the payload has neither \<^verbatim>\<open>simulate\<close> true nor the
  signature \<^verbatim>\<open>"sim_signature"\<close>.\<close>

definition signature_rejected :: "env \<Rightarrow> json \<Rightarrow> bool" where
  "signature_rejected E p =
     (if USE_RAZORPAY E then gateway_check E p \<noteq> None
      else \<not> simulate_true p \<and> \<not> signature_sim p)"

text \<open>The donor name a request body carries; \<^verbatim>\<open>Donor\<close> is the default of line
  156.\<close>

definition name_of :: "json \<Rightarrow> json" where
  "name_of body = (case field body ''name'' of Some v \<Rightarrow> v | None \<Rightarrow> JStr ''Donor'')"

text \<open>The message of a failed verification in dummy mode.\<close>

definition dummy_failure_text :: "env \<Rightarrow> json \<Rightarrow> string" where
  "dummy_failure_text E p =
     (case p of
        JObj kvs \<Rightarrow>
          (if required_fields p then ''Dummy mode requires simulate:true or sim_signature''
           else ''Missing fields'')
      | _ \<Rightarrow> exn_text E (AttributeError (type_name p) ''get''))"

subsection \<open>Sample configurations and requests\<close>

fun sample_text :: "exn \<Rightarrow> string" where
  "sample_text (AttributeError t a) = t @ '' object has no attribute '' @ a"
| "sample_text (TypeError s) = ''bad type: '' @ s"
| "sample_text (ValueError s) = ''bad value: '' @ s"
| "sample_text (OverflowError s) = ''overflow: '' @ s"
| "sample_text (KeyError s) = s"
| "sample_text (FileNotFoundError s) = ''no such file: '' @ s"
| "sample_text (LibraryError s) = s"

text \<open>The defaults of lines 41-49 when the process environment sets nothing: dummy mode,
  no SMTP server.\<close>

definition sample_env :: env where
  "sample_env =
     \<lparr>USE_RAZORPAY = False, RAZORPAY_KEY_ID = ''rzp_test_dummy'', SMTP_HOST = [],
      SMTP_PORT = 587, SMTP_USER = [], SMTP_PASS = [], FROM_EMAIL = ''no-reply@example.com'',
      verify_payment_signature = (\<lambda>order_id payment_id signature. None),
      order_create = (\<lambda>data. Inl (LibraryError ''gateway unreachable'')),
      canvas_save = (\<lambda>fs filename text_lines. Inr (map (\<lambda>c. of_nat (of_char c)) (concat text_lines))),
      formataddr = (\<lambda>display address. Inr (display @ '' <'' @ address @ ''>'')),
      smtp_send = (\<lambda>m. Some (LibraryError ''connection refused'')),
      exn_text = sample_text,
      str_other = (\<lambda>v. ''?''),
      int_non_ascii = (\<lambda>s. None),
      int_max_str_digits = 4300\<rparr>"

text \<open>The same with an SMTP server configured; the server refuses the connection.\<close>

definition sample_mail_env :: env where
  "sample_mail_env =
     sample_env\<lparr>SMTP_HOST := ''smtp.example.com'', SMTP_USER := ''trust'', SMTP_PASS := ''secret''\<rparr>"

definition sample_readings :: readings where
  "sample_readings =
     \<lparr>time_handler = 1700000000, time_certificate = 1700000000, utc_date = ''2023-11-14'',
      uuid_hex = ''0123456789abcdef0123456789abcdef''\<rparr>"

definition empty_dir :: cert_dir where
  "empty_dir = (\<lambda>filename. None)"

definition sample_payload :: json where
  "sample_payload =
     JObj [(''razorpay_order_id'', JStr ''o1''), (''razorpay_payment_id'', JStr ''p1''),
           (''razorpay_signature'', JStr ''sim_signature''), (''name'', JStr ''Asha''),
           (''email'', JStr ''asha@example.com''), (''amount'', JInt 500)]"

text \<open>The certificate of the sample request, as the sample canvas writes it, and the
  outcome of the sample request under a configuration.\<close>

definition sample_filename :: string where
  "sample_filename = certificate_filename ''o1'' 1700000000"

definition sample_bytes :: bytes where
  "sample_bytes =
     map (\<lambda>c. of_nat (of_char c))
       (concat (split_on newline (certificate_text sample_env (JStr ''Asha'') 500 ''o1'' ''2023-11-14'')))"

definition sample_outcome :: "env \<Rightarrow> outcome" where
  "sample_outcome E =
     email_and_result E (empty_dir(sample_filename \<mapsto> RegularFile sample_bytes))
       (JStr ''Asha'') (JStr ''asha@example.com'') 500 (JStr ''o1'') sample_filename"

text \<open>A second donation on the same order, and a verified request whose amount is not a
  number.\<close>

definition second_bytes :: bytes where
  "second_bytes =
     map (\<lambda>c. of_nat (of_char c))
       (concat (split_on newline (certificate_text sample_env (JStr ''Binod'') 900 ''o1'' ''2023-11-14'')))"

definition no_amount_payload :: json where
  "no_amount_payload =
     JObj [(''razorpay_order_id'', JStr ''o1''), (''razorpay_payment_id'', JStr ''p1''),
           (''razorpay_signature'', JStr ''sim_signature''), (''amount'', JStr ''abc'')]"

text \<open>Razorpay mode with an SDK that accepts one signature and raises on every other; a
  request with a forged signature.\<close>

definition sample_gateway_env :: env where
  "sample_gateway_env =
     sample_env\<lparr>USE_RAZORPAY := True,
       verify_payment_signature := (\<lambda>order_id payment_id signature.
         if signature = JStr ''9f2c'' then None
         else Some (LibraryError ''Razorpay Signature Verification Failed''))\<rparr>"

definition forged_payload :: json where
  "forged_payload =
     JObj [(''razorpay_order_id'', JStr ''o1''), (''razorpay_payment_id'', JStr ''p1''),
           (''razorpay_signature'', JStr ''forged''), (''name'', JStr ''Asha''),
           (''email'', JStr ''asha@example.com''), (''amount'', JInt 500)]"

section \<open>Properties\<close>

declare str_nat.simps [simp del]

lemma sample_env_simps:
  "USE_RAZORPAY sample_env = False" "SMTP_HOST sample_env = []" "SMTP_USER sample_env = []"
  "SMTP_PASS sample_env = []" "exn_text sample_env = sample_text"
  "int_non_ascii sample_env = (\<lambda>s. None)" "int_max_str_digits sample_env = 4300"
  by (simp_all add: sample_env_def)

lemma respond_simps [simp]: "status (respond c b) = c" "content (respond c b) = b"
  by (simp_all add: respond_def)

subsection \<open>Signature verification\<close>

text \<open>
  C1, as the code has it. In dummy mode \<^verbatim>\<open>verify_signature\<close> succeeds exactly on the
  payloads whose three required fields are present and true as Python tests them, and
  whose \<^verbatim>\<open>simulate\<close> is \<^verbatim>\<open>true\<close> or whose signature is \<^verbatim>\<open>"sim_signature"\<close>. On
  every other payload it fails with a message: \<^verbatim>\<open>Missing fields\<close>, the dummy mode
  message, or the text of the exception when the payload is not an object.
\<close>

theorem verify_signature_dummy_mode:
  "\<not> USE_RAZORPAY E \<Longrightarrow>
   verify_signature E p =
     (if required_fields p \<and> (simulate_true p \<or> signature_sim p) then Inr (True, None)
      else Inr (False, Some (dummy_failure_text E p)))"
  by (cases p)
     (auto simp: verify_signature_def try_except_def and_then_def required_fields_def
        field_truthy_def field_def simulate_true_def signature_sim_def dummy_failure_text_def
        split: option.splits)

theorem verify_signature_dummy_mode_witness:
  "\<not> USE_RAZORPAY sample_env
   \<and> verify_signature sample_env sample_payload = Inr (True, None)
   \<and> verify_signature sample_env
        (JObj [(''razorpay_order_id'', JStr ''o1''), (''razorpay_payment_id'', JStr ''p1''),
               (''razorpay_signature'', JStr ''forged'')])
       = Inr (False, Some ''Dummy mode requires simulate:true or sim_signature'')"
  using verify_signature_dummy_mode [of sample_env sample_payload]
    verify_signature_dummy_mode [of sample_env
        "JObj [(''razorpay_order_id'', JStr ''o1''), (''razorpay_payment_id'', JStr ''p1''),
               (''razorpay_signature'', JStr ''forged'')]"]
  by (simp add: sample_env_simps sample_payload_def required_fields_def field_truthy_def
        field_def simulate_true_def signature_sim_def dummy_failure_text_def)

text \<open>
  C1 as the specification states it fails: a payload with \<^verbatim>\<open>simulate\<close> true and the
  signature \<^verbatim>\<open>"sim_signature"\<close>, but no order id and no payment id, is refused.
\<close>

theorem simulate_alone_is_refused:
  "\<not> USE_RAZORPAY sample_env
   \<and> simulate_true (JObj [(''simulate'', JBool True), (''razorpay_signature'', JStr ''sim_signature'')])
   \<and> signature_sim (JObj [(''simulate'', JBool True), (''razorpay_signature'', JStr ''sim_signature'')])
   \<and> verify_signature sample_env
        (JObj [(''simulate'', JBool True), (''razorpay_signature'', JStr ''sim_signature'')])
       = Inr (False, Some ''Missing fields'')"
  by (simp add: sample_env_simps simulate_true_def signature_sim_def field_def
        verify_signature_def try_except_def and_then_def)

text \<open>
  C9. \<^verbatim>\<open>verify_signature\<close> returns a pair for every input and every behaviour of the
  SDK, and never raises: an exception of its body becomes \<^verbatim>\<open>(False, message)\<close>. The
  message is absent exactly when the verification succeeded.
\<close>

theorem verify_signature_total:
  "\<exists>ok msg. verify_signature E p = Inr (ok, msg) \<and> (ok \<longleftrightarrow> msg = None)"
  by (cases p)
     (auto simp: verify_signature_def try_except_def and_then_def split: option.splits)

theorem verify_signature_total_witness:
  "(\<exists>ok msg. verify_signature sample_env (JList [JInt 1]) = Inr (ok, msg) \<and> (ok \<longleftrightarrow> msg = None))
   \<and> py_get (JList [JInt 1]) ''razorpay_order_id'' JNull = Inl (AttributeError ''list'' ''get'')
   \<and> verify_signature sample_env (JList [JInt 1])
       = Inr (False, Some (sample_text (AttributeError ''list'' ''get'')))"
  using verify_signature_total [of sample_env "JList [JInt 1]"]
  by (simp add: verify_signature_def try_except_def and_then_def sample_env_simps)

subsection \<open>Order creation\<close>

lemma trunc_nonpositive: "q \<le> 0 \<Longrightarrow> trunc q \<le> 0"
  by (auto simp: trunc_def)

lemma nonpositive_py_int:
  "nonpositive v \<Longrightarrow> unparseable E v \<or> parses_nonpositive E v"
  by (cases v rule: nonpositive.cases)
     (auto simp: unparseable_def parses_nonpositive_def trunc_nonpositive)

lemma amount_of_py_get:
  "py_get (or_empty body) ''amount'' (JInt 0) = Inr v \<Longrightarrow> amount_of body = v"
  by (cases body) (auto simp: or_empty_def amount_of_def field_def split: if_splits option.splits)

text \<open>
  C2. Whatever the body of the request is, when its amount (0 when the body has none) is a
  number that is at most zero, or does not parse as an integer, or parses as an integer
  that is at most zero, \<^verbatim>\<open>create_order\<close> answers 400 with a JSON body whose only key
  is \<^verbatim>\<open>error\<close>, in either mode and before the gateway is called.
\<close>

theorem create_order_rejects:
  assumes "nonpositive (amount_of body) \<or> unparseable E (amount_of body)
           \<or> parses_nonpositive E (amount_of body)"
  shows "create_order E R body
           = Inr (respond 400 (JsonBody (JObj [(''error'', JStr ''Invalid amount'')])))
         \<or> create_order E R body
           = Inr (respond 400 (JsonBody (JObj [(''error'', JStr ''Amount must be > 0'')])))"
proof -
  from assms nonpositive_py_int
  have bad: "unparseable E (amount_of body) \<or> parses_nonpositive E (amount_of body)"
    by blast
  show ?thesis
  proof (cases "py_get (or_empty body) ''amount'' (JInt 0)")
    case (Inl e)
    then show ?thesis by (simp add: create_order_def and_then_def)
  next
    case (Inr v)
    then have v: "amount_of body = v" by (rule amount_of_py_get)
    with bad Inr show ?thesis
      by (auto simp: create_order_def and_then_def unparseable_def parses_nonpositive_def
            split: sum.splits)
  qed
qed

theorem create_order_rejects_witness:
  "unparseable sample_env (amount_of (JObj [(''amount'', JStr ''abc'')]))
   \<and> create_order sample_env sample_readings (JObj [(''amount'', JStr ''abc'')])
       = Inr (respond 400 (JsonBody (JObj [(''error'', JStr ''Invalid amount'')])))
   \<and> unparseable sample_env (amount_of (JObj [(''amount'', JStr [CHR 0x1C, CHR ''5''])]))
   \<and> create_order sample_env sample_readings (JObj [(''amount'', JStr [CHR 0x1C, CHR ''5''])])
       = Inr (respond 400 (JsonBody (JObj [(''error'', JStr ''Invalid amount'')])))
   \<and> parses_nonpositive sample_env (amount_of (JObj [(''amount'', JStr '' -3 '')]))
   \<and> create_order sample_env sample_readings (JObj [(''amount'', JStr '' -3 '')])
       = Inr (respond 400 (JsonBody (JObj [(''error'', JStr ''Amount must be > 0'')])))
   \<and> nonpositive (amount_of (JObj [(''amount'', JFloat (Finite (- 1 / 2)))]))
   \<and> create_order sample_env sample_readings (JObj [(''amount'', JFloat (Finite (- 1 / 2)))])
       = Inr (respond 400 (JsonBody (JObj [(''error'', JStr ''Amount must be > 0'')])))"
  using create_order_rejects [of "JObj [(''amount'', JStr ''abc'')]" sample_env sample_readings]
    create_order_rejects [of "JObj [(''amount'', JStr [CHR 0x1C, CHR ''5''])]" sample_env
      sample_readings]
    create_order_rejects [of "JObj [(''amount'', JStr '' -3 '')]" sample_env sample_readings]
    create_order_rejects [of "JObj [(''amount'', JFloat (Finite (- 1 / 2)))]" sample_env
      sample_readings]
  by (simp add: create_order_def and_then_def or_empty_def int_of_string_def int_strip_def
        is_space_def is_digit_def digit_val_def digits_value_def sample_env_def trunc_def
        unparseable_def parses_nonpositive_def amount_of_def field_def)

subsection \<open>The shape of the replies of payment verification\<close>

lemma verified_has_fields:
  "verify_signature E p = Inr (True, m) \<Longrightarrow> required_fields p"
  by (cases p)
     (auto simp: verify_signature_def try_except_def and_then_def required_fields_def
        field_truthy_def field_def split: option.splits if_splits)

lemma or_empty_field [simp]: "field (or_empty body) k = field body k"
  by (cases body) (auto simp: or_empty_def field_def)

lemma verify_payment_unverified:
  "verify_signature E (or_empty body) = Inr (False, m) \<Longrightarrow>
   verify_payment E R fs body =
     Inr \<lparr>reply = respond 400 (JsonBody (JObj
             [(''error'', JStr ''Signature verification failed''),
              (''details'', (case m of None \<Rightarrow> JNull | Some t \<Rightarrow> JStr t))])),
          disk = fs, sent = []\<rparr>"
  by (simp add: verify_payment_def and_then_def)

lemma verify_payment_verified:
  "verify_signature E (or_empty body) = Inr (True, m) \<Longrightarrow>
   verify_payment E R fs body =
     try_except (certificate_and_email E R fs (or_empty body))
       (\<lambda>e. Inr \<lparr>reply = respond 500 (JsonBody (JObj
                    [(''error'', JStr ''Internal error generating certificate''),
                     (''details'', JStr (exn_text E e))])),
                 disk = fs, sent = []\<rparr>)"
  by (simp add: verify_payment_def and_then_def)

lemma verify_signature_rejects:
  "\<not> required_fields p \<or> signature_rejected E p \<Longrightarrow>
   \<exists>t. verify_signature E p = Inr (False, Some t)"
  by (cases p)
     (auto simp: verify_signature_def try_except_def and_then_def required_fields_def
        field_truthy_def field_def signature_rejected_def gateway_check_def field_or_null_def
        simulate_true_def signature_sim_def
        split: option.splits if_splits)

lemma verify_signature_accepts:
  "required_fields p \<Longrightarrow> \<not> signature_rejected E p \<Longrightarrow> verify_signature E p = Inr (True, None)"
  by (cases p)
     (auto simp: verify_signature_def try_except_def and_then_def required_fields_def
        field_truthy_def field_def signature_rejected_def gateway_check_def field_or_null_def
        simulate_true_def signature_sim_def
        split: option.splits if_splits)

lemma missing_not_required: "field_missing p \<Longrightarrow> \<not> required_fields p"
  by (auto simp: field_missing_def required_fields_def field_truthy_def)

lemma or_empty_rejected: "signature_rejected E (or_empty body) = signature_rejected E body"
  by (simp add: signature_rejected_def gateway_check_def field_or_null_def simulate_true_def
        signature_sim_def)

lemma or_empty_required: "required_fields (or_empty body) = required_fields body"
  by (simp add: required_fields_def field_truthy_def)

lemma and_then_Inr:
  assumes "and_then m f = Inr y"
  obtains x where "m = Inr x" and "f x = Inr y"
  using assms by (cases m) (simp_all add: and_then_def)

lemma py_get_Inr:
  "py_get p k d = Inr v \<Longrightarrow> v = (case field p k of Some w \<Rightarrow> w | None \<Rightarrow> d)"
  by (cases p) (simp_all add: field_def)

lemma generate_certificate_Inr:
  assumes "generate_certificate E R fs name amount order_id = Inr (fname, fs')"
  obtains oid written where "order_id = JStr oid"
    and "fname = certificate_filename oid (time_certificate R)"
    and "canvas_save E fs fname
           (split_on newline (certificate_text E name amount oid (utc_date R))) = Inr written"
    and "fs' = fs(fname \<mapsto> RegularFile written)"
  using assms
  by (cases order_id) (auto simp: generate_certificate_def Let_def split: sum.splits)

lemma certificate_and_email_shape:
  assumes "certificate_and_email E R fs p = Inr out"
  obtains donor_name amount oid written where
      "py_int E (amount_of p) = Inr amount"
    and "(case field p ''razorpay_order_id'' of Some v \<Rightarrow> v
        | None \<Rightarrow> (case field p ''order_id'' of Some v \<Rightarrow> v
                    | None \<Rightarrow> JStr (''order_'' @ str_int (time_handler R)))) = JStr oid"
    and "canvas_save E fs (certificate_filename oid (time_certificate R))
         (split_on newline (certificate_text E donor_name amount oid (utc_date R))) = Inr written"
    and "out = email_and_result E
              (fs(certificate_filename oid (time_certificate R) \<mapsto> RegularFile written))
              donor_name (case field p ''email'' of Some v \<Rightarrow> v | None \<Rightarrow> JNull)
              amount (JStr oid) (certificate_filename oid (time_certificate R))"
proof -
  from assms obtain donor_name donor_email amount_v amount dflt order_id fname fs' where
        "py_get p ''name'' (JStr ''Donor'') = Inr donor_name"
    and email: "py_get p ''email'' JNull = Inr donor_email"
    and amount_v: "py_get p ''amount'' (JInt 0) = Inr amount_v"
    and amount: "py_int E amount_v = Inr amount"
    and dflt: "py_get p ''order_id'' (JStr (''order_'' @ str_int (time_handler R))) = Inr dflt"
    and order_id: "py_get p ''razorpay_order_id'' dflt = Inr order_id"
    and gen: "generate_certificate E R fs donor_name amount order_id = Inr (fname, fs')"
    and out: "out = email_and_result E fs' donor_name donor_email amount order_id fname"
    unfolding certificate_and_email_def
    by (elim and_then_Inr) (auto split: prod.splits)
  from gen obtain oid written where oid: "order_id = JStr oid"
    and fname: "fname = certificate_filename oid (time_certificate R)"
    and written: "canvas_save E fs fname
           (split_on newline (certificate_text E donor_name amount oid (utc_date R))) = Inr written"
    and fs': "fs' = fs(fname \<mapsto> RegularFile written)"
    by (rule generate_certificate_Inr)
  have 1: "py_int E (amount_of p) = Inr amount"
    using py_get_Inr [OF amount_v] amount by (simp add: amount_of_def)
  have 2: "(case field p ''razorpay_order_id'' of Some v \<Rightarrow> v
        | None \<Rightarrow> (case field p ''order_id'' of Some v \<Rightarrow> v
                    | None \<Rightarrow> JStr (''order_'' @ str_int (time_handler R)))) = JStr oid"
    using py_get_Inr [OF dflt] py_get_Inr [OF order_id] oid by (simp split: option.splits)
  have 3: "out = email_and_result E
              (fs(certificate_filename oid (time_certificate R) \<mapsto> RegularFile written))
              donor_name (case field p ''email'' of Some v \<Rightarrow> v | None \<Rightarrow> JNull)
              amount (JStr oid) (certificate_filename oid (time_certificate R))"
    using out py_get_Inr [OF email] oid fname fs' by simp
  from 1 2 written [unfolded fname] 3 show thesis by (rule that)
qed

lemma verify_signature_returns:
  "\<exists>ok msg. verify_signature E p = Inr (ok, msg)"
  by (cases p)
     (auto simp: verify_signature_def try_except_def and_then_def split: option.splits)

lemma verify_payment_success:
  assumes "verify_payment E R fs body = Inr out" and "status (reply out) = 200"
  obtains m where "verify_signature E (or_empty body) = Inr (True, m)"
    and "certificate_and_email E R fs (or_empty body) = Inr out"
proof -
  obtain ok m where v: "verify_signature E (or_empty body) = Inr (ok, m)"
    using verify_signature_returns by blast
  show thesis
  proof (cases ok)
    case False
    with v assms show thesis by (auto simp: verify_payment_unverified)
  next
    case True
    with v have "verify_payment E R fs body =
        try_except (certificate_and_email E R fs (or_empty body))
          (\<lambda>e. Inr \<lparr>reply = respond 500 (JsonBody (JObj
                    [(''error'', JStr ''Internal error generating certificate''),
                     (''details'', JStr (exn_text E e))])),
                 disk = fs, sent = []\<rparr>)"
      by (simp add: verify_payment_verified)
    with assms have "certificate_and_email E R fs (or_empty body) = Inr out"
      by (cases "certificate_and_email E R fs (or_empty body)") (auto simp: try_except_def)
    with v True show thesis by (auto intro: that)
  qed
qed

lemma email_and_result_reply:
  "status (reply (email_and_result E fs' n e a oid f)) = 200"
  "body_keys (reply (email_and_result E fs' n e a oid f))
     = [''status'', ''message'', ''payment'', ''certificate_url'', ''email_sent'', ''email_error'']"
  "body_field (reply (email_and_result E fs' n e a oid f)) ''status'' = Some (JStr ''success'')"
  "body_field (reply (email_and_result E fs' n e a oid f)) ''payment''
     = Some (JObj [(''order_id'', oid), (''amount'', JInt a)])"
  "body_field (reply (email_and_result E fs' n e a oid f)) ''certificate_url''
     = Some (JStr (''/certificate/'' @ f))"
  "disk (email_and_result E fs' n e a oid f) = fs'"
  by (simp_all add: email_and_result_def Let_def body_keys_def body_field_def field_def)

lemma email_and_result_no_attempt:
  assumes "\<not> (truthy e \<and> SMTP_HOST E \<noteq> [] \<and> SMTP_USER E \<noteq> [] \<and> SMTP_PASS E \<noteq> [])"
  shows "sent (email_and_result E fs' n e a oid f) = []"
    and "body_field (reply (email_and_result E fs' n e a oid f)) ''email_sent'' = Some (JBool False)"
    and "body_field (reply (email_and_result E fs' n e a oid f)) ''email_error'' = Some JNull"
  using assms
  by (auto simp add: email_and_result_def Let_def body_field_def field_def)

lemma verified_status:
  assumes "verify_signature E (or_empty body) = Inr (True, m)"
    and "verify_payment E R fs body = Inr out"
  shows "status (reply out) = 200 \<or> status (reply out) = 500"
proof (cases "certificate_and_email E R fs (or_empty body)")
  case (Inl e)
  with assms show ?thesis by (auto simp: verify_payment_verified try_except_def)
next
  case (Inr o2)
  with assms have "out = o2" by (simp add: verify_payment_verified try_except_def)
  with Inr show ?thesis
    by (auto elim!: certificate_and_email_shape simp: email_and_result_reply)
qed

lemma verified_block:
  assumes amount: "py_int E (amount_of body) = Inr amount"
    and order: "field body ''razorpay_order_id'' = Some (JStr oid)"
    and fname: "fname = certificate_filename oid (time_certificate R)"
    and written: "canvas_save E fs fname
           (split_on newline (certificate_text E (name_of body) amount oid (utc_date R)))
         = Inr written"
    and address: "field body ''email'' = Some address"
  shows "certificate_and_email E R fs (or_empty body)
         = Inr (email_and_result E (fs(fname \<mapsto> RegularFile written)) (name_of body) address
                  amount (JStr oid) fname)"
proof -
  from order obtain kvs where body: "body = JObj kvs"
    by (cases body) (auto simp: field_def)
  with order have "kvs \<noteq> []" by (auto simp: field_def)
  with body have p: "or_empty body = JObj kvs" by (simp add: or_empty_def)
  from order body have o: "map_of kvs ''razorpay_order_id'' = Some (JStr oid)"
    by (simp add: field_def)
  from address body have a: "map_of kvs ''email'' = Some address"
    by (simp add: field_def)
  from amount body have n: "py_int E (case map_of kvs ''amount'' of Some v \<Rightarrow> v | None \<Rightarrow> JInt 0)
        = Inr amount"
    by (simp add: amount_of_def field_def)
  have d: "(case map_of kvs ''name'' of Some v \<Rightarrow> v | None \<Rightarrow> JStr ''Donor'') = name_of body"
    by (simp add: name_of_def field_def body)
  have g: "generate_certificate E R fs (name_of body) amount (JStr oid)
      = Inr (fname, fs(fname \<mapsto> RegularFile written))"
    using written by (simp add: generate_certificate_def Let_def fname)
  show ?thesis
    unfolding p certificate_and_email_def
    by (simp add: and_then_def o a n d g)
qed

subsection \<open>The sample request\<close>

lemma sample_mail_env_simps:
  "USE_RAZORPAY sample_mail_env = False" "SMTP_HOST sample_mail_env \<noteq> []"
  "SMTP_USER sample_mail_env \<noteq> []" "SMTP_PASS sample_mail_env \<noteq> []"
  "exn_text sample_mail_env = sample_text" "FROM_EMAIL sample_mail_env = ''no-reply@example.com''"
  "smtp_send sample_mail_env = (\<lambda>m. Some (LibraryError ''connection refused''))"
  "canvas_save sample_mail_env = canvas_save sample_env"
  by (simp_all add: sample_mail_env_def sample_env_def)

lemma sample_verified:
  "verify_signature sample_env (or_empty sample_payload) = Inr (True, None)"
  "verify_signature sample_mail_env (or_empty sample_payload) = Inr (True, None)"
  by (simp_all add: verify_signature_def try_except_def and_then_def or_empty_def
        sample_payload_def sample_env_simps sample_mail_env_simps)

lemma certificate_text_env:
  "certificate_text E (JStr n) a oid d = certificate_text sample_env (JStr n) a oid d"
  by (simp add: certificate_text_def py_str_def)

lemma sample_block:
  "canvas_save E = canvas_save sample_env \<Longrightarrow>
   certificate_and_email E sample_readings empty_dir (or_empty sample_payload)
     = Inr (sample_outcome E)"
  by (simp add: certificate_and_email_def and_then_def or_empty_def sample_payload_def
        generate_certificate_def sample_readings_def sample_outcome_def sample_filename_def
        sample_bytes_def certificate_text_env [of E] sample_env_def Let_def)

lemma sample_run:
  "verify_payment sample_env sample_readings empty_dir sample_payload
     = Inr (sample_outcome sample_env)"
  "verify_payment sample_mail_env sample_readings empty_dir sample_payload
     = Inr (sample_outcome sample_mail_env)"
  by (simp_all add: verify_payment_verified sample_verified sample_block try_except_def
        sample_mail_env_simps)

lemma sample_filename_text: "sample_filename = ''certificate_o1_1700000000.pdf''"
  by (simp add: sample_filename_def certificate_filename_def replace_slash_def str_int_def
        str_nat.simps digit_char_def)

lemma sample_sent:
  "sent (sample_outcome sample_mail_env)
     = [(JStr ''asha@example.com'', email_subject,
         email_body sample_mail_env (JStr ''Asha'') 500 (JStr ''o1''), sample_filename)]"
  "sent (sample_outcome sample_env) = []"
  "disk (sample_outcome E) = empty_dir(sample_filename \<mapsto> RegularFile sample_bytes)"
  "status (reply (sample_outcome E)) = 200"
  by (simp_all add: sample_outcome_def email_and_result_def Let_def sample_mail_env_simps
        sample_env_simps)

lemma sample_send:
  "send_email_with_attachment sample_mail_env
     (empty_dir(sample_filename \<mapsto> RegularFile sample_bytes))
     (JStr ''asha@example.com'') email_subject
     (email_body sample_mail_env (JStr ''Asha'') 500 (JStr ''o1'')) sample_filename
   = Some (LibraryError ''connection refused'')"
  by (simp add: send_email_with_attachment_def from_header_def sample_mail_env_simps)

lemma sample_canvas:
  "canvas_save sample_env
     = (\<lambda>fs filename text_lines. Inr (map (\<lambda>c. of_nat (of_char c)) (concat text_lines)))"
  by (simp add: sample_env_def)

lemma sample_generate:
  "generate_certificate sample_env sample_readings fs (JStr ''Asha'') 500 (JStr ''o1'')
     = Inr (sample_filename, fs(sample_filename \<mapsto> RegularFile sample_bytes))"
  "generate_certificate sample_env sample_readings fs (JStr ''Binod'') 900 (JStr ''o1'')
     = Inr (sample_filename, fs(sample_filename \<mapsto> RegularFile second_bytes))"
  by (simp_all add: generate_certificate_def Let_def sample_readings_def sample_filename_def
        sample_bytes_def second_bytes_def sample_canvas)

lemma sample_gateway_env_simps:
  "USE_RAZORPAY sample_gateway_env = True" "exn_text sample_gateway_env = sample_text"
  "verify_payment_signature sample_gateway_env a b (JStr ''forged'')
     = Some (LibraryError ''Razorpay Signature Verification Failed'')"
  by (simp_all add: sample_gateway_env_def sample_env_def)

lemma forged_refused:
  "verify_payment sample_env sample_readings empty_dir forged_payload
     = Inr \<lparr>reply = respond 400 (JsonBody (JObj
               [(''error'', JStr ''Signature verification failed''),
                (''details'', JStr ''Dummy mode requires simulate:true or sim_signature'')])),
            disk = empty_dir, sent = []\<rparr>"
  "verify_payment sample_gateway_env sample_readings empty_dir forged_payload
     = Inr \<lparr>reply = respond 400 (JsonBody (JObj
               [(''error'', JStr ''Signature verification failed''),
                (''details'', JStr ''Razorpay Signature Verification Failed'')])),
            disk = empty_dir, sent = []\<rparr>"
  "verify_payment sample_env sample_readings empty_dir (JObj [(''simulate'', JBool True)])
     = Inr \<lparr>reply = respond 400 (JsonBody (JObj
               [(''error'', JStr ''Signature verification failed''),
                (''details'', JStr ''Missing fields'')])),
            disk = empty_dir, sent = []\<rparr>"
  by (simp_all add: verify_payment_def verify_signature_def try_except_def and_then_def
        or_empty_def forged_payload_def sample_env_simps sample_gateway_env_simps)

subsection \<open>Payment verification\<close>

text \<open>
  C5. \<^verbatim>\<open>verify_payment\<close> answers 400 with the keys \<^verbatim>\<open>error\<close> and
  \<^verbatim>\<open>details\<close>, writes no file and sends no e-mail, when one of
  \<^verbatim>\<open>razorpay_order_id\<close>, \<^verbatim>\<open>razorpay_payment_id\<close> and
  \<^verbatim>\<open>razorpay_signature\<close> is missing from the body or is empty, and when the
  signature is invalid: in Razorpay mode the check of the SDK raises on the three fields,
  in dummy mode the body has neither \<^verbatim>\<open>simulate\<close> true nor the signature
  \<^verbatim>\<open>"sim_signature"\<close>. Every reply with status 200 has exactly the keys
  \<^verbatim>\<open>status\<close>, \<^verbatim>\<open>message\<close>, \<^verbatim>\<open>payment\<close>,
  \<^verbatim>\<open>certificate_url\<close>, \<^verbatim>\<open>email_sent\<close> and \<^verbatim>\<open>email_error\<close>, and a
  reply with status 400 is given to no other request than those above.
\<close>

theorem verify_payment_contract:
  "(field_missing body \<or> \<not> required_fields body \<or> signature_rejected E body
      \<longrightarrow> (\<exists>out t. verify_payment E R fs body = Inr out \<and> status (reply out) = 400
             \<and> body_keys (reply out) = [''error'', ''details'']
             \<and> body_field (reply out) ''error'' = Some (JStr ''Signature verification failed'')
             \<and> body_field (reply out) ''details'' = Some (JStr t)
             \<and> disk out = fs \<and> sent out = []))
   \<and> (\<forall>out. verify_payment E R fs body = Inr out \<and> status (reply out) = 200
        \<longrightarrow> body_keys (reply out)
            = [''status'', ''message'', ''payment'', ''certificate_url'', ''email_sent'',
               ''email_error''])
   \<and> (\<forall>out. verify_payment E R fs body = Inr out \<and> status (reply out) = 400
        \<longrightarrow> \<not> required_fields body \<or> signature_rejected E body)"
proof (intro conjI impI allI)
  assume "field_missing body \<or> \<not> required_fields body \<or> signature_rejected E body"
  then have "\<not> required_fields (or_empty body) \<or> signature_rejected E (or_empty body)"
    using missing_not_required by (auto simp: or_empty_required or_empty_rejected)
  then obtain t where "verify_signature E (or_empty body) = Inr (False, Some t)"
    using verify_signature_rejects by blast
  then show "\<exists>out t. verify_payment E R fs body = Inr out \<and> status (reply out) = 400
             \<and> body_keys (reply out) = [''error'', ''details'']
             \<and> body_field (reply out) ''error'' = Some (JStr ''Signature verification failed'')
             \<and> body_field (reply out) ''details'' = Some (JStr t)
             \<and> disk out = fs \<and> sent out = []"
    by (simp add: verify_payment_unverified body_keys_def body_field_def field_def)
next
  fix out
  assume a: "verify_payment E R fs body = Inr out \<and> status (reply out) = 200"
  then obtain m where "certificate_and_email E R fs (or_empty body) = Inr out"
    by (auto elim: verify_payment_success)
  then show "body_keys (reply out)
            = [''status'', ''message'', ''payment'', ''certificate_url'', ''email_sent'',
               ''email_error'']"
    by (auto elim!: certificate_and_email_shape simp: email_and_result_reply)
next
  fix out
  assume a: "verify_payment E R fs body = Inr out \<and> status (reply out) = 400"
  show "\<not> required_fields body \<or> signature_rejected E body"
  proof (rule ccontr)
    assume "\<not> (\<not> required_fields body \<or> signature_rejected E body)"
    then have "verify_signature E (or_empty body) = Inr (True, None)"
      by (simp add: verify_signature_accepts or_empty_required or_empty_rejected)
    from verified_status [OF this, of R fs out] a show False by auto
  qed
qed


theorem verify_payment_contract_witness:
  "field_missing (JObj [(''simulate'', JBool True)])
   \<and> verify_payment sample_env sample_readings empty_dir (JObj [(''simulate'', JBool True)])
     = Inr \<lparr>reply = respond 400 (JsonBody (JObj
               [(''error'', JStr ''Signature verification failed''),
                (''details'', JStr ''Missing fields'')])),
            disk = empty_dir, sent = []\<rparr>
   \<and> required_fields forged_payload
   \<and> signature_rejected sample_env forged_payload
   \<and> verify_payment sample_env sample_readings empty_dir forged_payload
     = Inr \<lparr>reply = respond 400 (JsonBody (JObj
               [(''error'', JStr ''Signature verification failed''),
                (''details'', JStr ''Dummy mode requires simulate:true or sim_signature'')])),
            disk = empty_dir, sent = []\<rparr>
   \<and> signature_rejected sample_gateway_env forged_payload
   \<and> verify_payment sample_gateway_env sample_readings empty_dir forged_payload
     = Inr \<lparr>reply = respond 400 (JsonBody (JObj
               [(''error'', JStr ''Signature verification failed''),
                (''details'', JStr ''Razorpay Signature Verification Failed'')])),
            disk = empty_dir, sent = []\<rparr>
   \<and> verify_payment sample_env sample_readings empty_dir sample_payload
       = Inr (sample_outcome sample_env)
   \<and> status (reply (sample_outcome sample_env)) = 200
   \<and> body_keys (reply (sample_outcome sample_env))
       = [''status'', ''message'', ''payment'', ''certificate_url'', ''email_sent'', ''email_error'']"
proof -
  have missing: "field_missing (JObj [(''simulate'', JBool True)])"
    by (simp add: field_missing_def field_def)
  have fields: "required_fields forged_payload"
    by (simp add: required_fields_def field_truthy_def field_def forged_payload_def)
  have dummy: "signature_rejected sample_env forged_payload"
    by (simp add: signature_rejected_def simulate_true_def signature_sim_def field_def
          forged_payload_def sample_env_simps)
  have gateway: "signature_rejected sample_gateway_env forged_payload"
    by (simp add: signature_rejected_def gateway_check_def field_or_null_def field_def
          forged_payload_def sample_gateway_env_simps)
  have run: "verify_payment sample_env sample_readings empty_dir sample_payload
       = Inr (sample_outcome sample_env)"
    by (rule sample_run)
  have ok: "status (reply (sample_outcome sample_env)) = 200"
    by (rule sample_sent)
  from verify_payment_contract [of sample_payload sample_env sample_readings empty_dir] run ok
  have keys: "body_keys (reply (sample_outcome sample_env))
       = [''status'', ''message'', ''payment'', ''certificate_url'', ''email_sent'', ''email_error'']"
    by blast
  from verify_payment_contract [of forged_payload sample_gateway_env sample_readings empty_dir]
    gateway
  have "\<exists>out. verify_payment sample_gateway_env sample_readings empty_dir forged_payload = Inr out
          \<and> status (reply out) = 400 \<and> disk out = empty_dir \<and> sent out = []"
    by blast
  then have refused: "verify_payment sample_gateway_env sample_readings empty_dir forged_payload
     = Inr \<lparr>reply = respond 400 (JsonBody (JObj
               [(''error'', JStr ''Signature verification failed''),
                (''details'', JStr ''Razorpay Signature Verification Failed'')])),
            disk = empty_dir, sent = []\<rparr>"
    by (simp add: forged_refused)
  from missing fields dummy gateway run ok keys refused forged_refused(1,3)
  show ?thesis by simp
qed

text \<open>
  C8. In every reply with status 200 the \<^verbatim>\<open>order_id\<close> of the \<^verbatim>\<open>payment\<close>
  object is the \<^verbatim>\<open>razorpay_order_id\<close> of the request, a non-empty string: the
  defaults of line 159 (the field \<^verbatim>\<open>order_id\<close>, the text made from the clock) are
  never the value, because the verification passed only with the field present.
\<close>

theorem reported_order_id:
  assumes "verify_payment E R fs body = Inr out" and "status (reply out) = 200"
  shows "\<exists>oid. field body ''razorpay_order_id'' = Some (JStr oid) \<and> oid \<noteq> []
           \<and> body_field (reply out) ''payment'' \<noteq> None
           \<and> field (the (body_field (reply out) ''payment'')) ''order_id'' = Some (JStr oid)"
proof -
  from assms obtain m where v: "verify_signature E (or_empty body) = Inr (True, m)"
    and c: "certificate_and_email E R fs (or_empty body) = Inr out"
    by (rule verify_payment_success)
  from v have "required_fields (or_empty body)" by (rule verified_has_fields)
  then obtain w where w: "field body ''razorpay_order_id'' = Some w" and "truthy w"
    by (auto simp: required_fields_def field_truthy_def split: option.splits)
  from c show ?thesis
  proof (rule certificate_and_email_shape)
    fix donor_name amount oid written
    assume "(case field (or_empty body) ''razorpay_order_id'' of Some v \<Rightarrow> v
        | None \<Rightarrow> (case field (or_empty body) ''order_id'' of Some v \<Rightarrow> v
                    | None \<Rightarrow> JStr (''order_'' @ str_int (time_handler R)))) = JStr oid"
      and out: "out = email_and_result E
              (fs(certificate_filename oid (time_certificate R) \<mapsto> RegularFile written))
              donor_name (case field (or_empty body) ''email'' of Some v \<Rightarrow> v | None \<Rightarrow> JNull)
              amount (JStr oid) (certificate_filename oid (time_certificate R))"
    with w have "w = JStr oid" by simp
    with w \<open>truthy w\<close> out show ?thesis
      by (simp add: email_and_result_reply field_def)
  qed
qed

theorem reported_order_id_witness:
  "verify_payment sample_env sample_readings empty_dir sample_payload
       = Inr (sample_outcome sample_env)
   \<and> status (reply (sample_outcome sample_env)) = 200
   \<and> field sample_payload ''razorpay_order_id'' = Some (JStr ''o1'')
   \<and> field (the (body_field (reply (sample_outcome sample_env)) ''payment'')) ''order_id''
       = Some (JStr ''o1'')"
proof -
  have run: "verify_payment sample_env sample_readings empty_dir sample_payload
       = Inr (sample_outcome sample_env)"
    by (rule sample_run)
  have ok: "status (reply (sample_outcome sample_env)) = 200"
    by (rule sample_sent)
  have f: "field sample_payload ''razorpay_order_id'' = Some (JStr ''o1'')"
    by (simp add: sample_payload_def field_def)
  from reported_order_id [OF run ok] f run ok show ?thesis by auto
qed

subsection \<open>The e-mail\<close>

lemma py_int_smtp [simp]: "py_int (E\<lparr>smtp_send := f\<rparr>) v = py_int E v"
  by (cases "(E, v)" rule: py_int.cases) (simp_all add: int_of_string_def Let_def cong: if_cong option.case_cong)

lemma verify_signature_smtp [simp]:
  "verify_signature (E\<lparr>smtp_send := f\<rparr>) p = verify_signature E p"
  by (simp add: verify_signature_def cong: if_cong option.case_cong)

lemma py_str_smtp [simp]: "py_str (E\<lparr>smtp_send := f\<rparr>) v = py_str E v"
  by (cases v) (simp_all add: py_str_def)

lemma certificate_text_smtp [simp]:
  "certificate_text (E\<lparr>smtp_send := f\<rparr>) n a oid d = certificate_text E n a oid d"
  by (simp add: certificate_text_def)

lemma email_body_smtp [simp]:
  "email_body (E\<lparr>smtp_send := f\<rparr>) n a oid = email_body E n a oid"
  by (simp add: email_body_def)

lemma generate_certificate_smtp [simp]:
  "generate_certificate (E\<lparr>smtp_send := f\<rparr>) R fs n a oid = generate_certificate E R fs n a oid"
  by (cases oid) (simp_all add: generate_certificate_def Let_def)

lemma email_and_result_smtp:
  "\<not> (truthy e \<and> SMTP_HOST E \<noteq> [] \<and> SMTP_USER E \<noteq> [] \<and> SMTP_PASS E \<noteq> []) \<Longrightarrow>
   email_and_result (E\<lparr>smtp_send := f\<rparr>) fs' n e a oid fn = email_and_result E fs' n e a oid fn"
  by (auto simp: email_and_result_def Let_def)

lemma no_address:
  "field p ''email'' = None \<Longrightarrow> py_get p ''email'' JNull = Inr e \<Longrightarrow> \<not> truthy e"
  by (cases p) (auto simp: field_def)

lemma certificate_and_email_smtp:
  assumes "field p ''email'' = None \<or> SMTP_HOST E = [] \<or> SMTP_USER E = [] \<or> SMTP_PASS E = []"
  shows "certificate_and_email (E\<lparr>smtp_send := f\<rparr>) R fs p = certificate_and_email E R fs p"
  using assms
  by (auto simp: certificate_and_email_def and_then_def email_and_result_smtp no_address
        split: sum.splits prod.splits)

lemma certificate_and_email_quiet:
  assumes "field p ''email'' = None \<or> SMTP_HOST E = [] \<or> SMTP_USER E = [] \<or> SMTP_PASS E = []"
    and "certificate_and_email E R fs p = Inr out"
  shows "sent out = []"
    and "body_field (reply out) ''email_sent'' = Some (JBool False)"
    and "body_field (reply out) ''email_error'' = Some JNull"
proof -
  from assms(2) obtain donor_name amount oid written where
    out: "out = email_and_result E
              (fs(certificate_filename oid (time_certificate R) \<mapsto> RegularFile written))
              donor_name (case field p ''email'' of Some v \<Rightarrow> v | None \<Rightarrow> JNull)
              amount (JStr oid) (certificate_filename oid (time_certificate R))"
    by (rule certificate_and_email_shape)
  from assms(1) have quiet: "\<not> (truthy (case field p ''email'' of Some v \<Rightarrow> v | None \<Rightarrow> JNull)
       \<and> SMTP_HOST E \<noteq> [] \<and> SMTP_USER E \<noteq> [] \<and> SMTP_PASS E \<noteq> [])"
    by auto
  show "sent out = []"
    and "body_field (reply out) ''email_sent'' = Some (JBool False)"
    and "body_field (reply out) ''email_error'' = Some JNull"
    unfolding out by (rule email_and_result_no_attempt [OF quiet])+
qed

text \<open>
  C10. For a verified request without an \<^verbatim>\<open>email\<close> field, or with one of
  \<^verbatim>\<open>SMTP_HOST\<close>, \<^verbatim>\<open>SMTP_USER\<close>, \<^verbatim>\<open>SMTP_PASS\<close> empty, the handler returns,
  \<^verbatim>\<open>send_email_with_attachment\<close> is not called, a reply with status 200 has
  \<^verbatim>\<open>email_sent\<close> false and \<^verbatim>\<open>email_error\<close> null, and the outcome is the same
  whatever the SMTP session would have done.
\<close>

theorem no_email_without_address_or_smtp:
  assumes "verify_signature E (or_empty body) = Inr (True, m)"
    and "field body ''email'' = None \<or> SMTP_HOST E = [] \<or> SMTP_USER E = [] \<or> SMTP_PASS E = []"
  shows "\<exists>out. verify_payment E R fs body = Inr out \<and> sent out = []
           \<and> (status (reply out) = 200 \<longrightarrow>
                 body_field (reply out) ''email_sent'' = Some (JBool False)
               \<and> body_field (reply out) ''email_error'' = Some JNull)
           \<and> (\<forall>f. verify_payment (E\<lparr>smtp_send := f\<rparr>) R fs body = Inr out)"
proof -
  from assms(2) have quiet: "field (or_empty body) ''email'' = None \<or> SMTP_HOST E = []
        \<or> SMTP_USER E = [] \<or> SMTP_PASS E = []"
    by simp
  have indep: "verify_payment (E\<lparr>smtp_send := f\<rparr>) R fs body = verify_payment E R fs body" for f
  proof -
    from assms(1) have "verify_signature (E\<lparr>smtp_send := f\<rparr>) (or_empty body) = Inr (True, m)"
      by simp
    then show ?thesis
      by (simp add: verify_payment_verified assms(1) certificate_and_email_smtp [OF quiet])
  qed
  show ?thesis
  proof (cases "certificate_and_email E R fs (or_empty body)")
    case (Inl e)
    with assms(1) show ?thesis
      by (simp add: indep) (simp add: verify_payment_verified try_except_def)
  next
    case (Inr out)
    with assms(1) have "verify_payment E R fs body = Inr out"
      by (simp add: verify_payment_verified try_except_def)
    with certificate_and_email_quiet [OF quiet Inr] show ?thesis
      by (simp add: indep)
  qed
qed

theorem no_email_without_address_or_smtp_witness:
  "verify_signature sample_env (or_empty sample_payload) = Inr (True, None)
   \<and> SMTP_HOST sample_env = []
   \<and> verify_payment sample_env sample_readings empty_dir sample_payload
       = Inr (sample_outcome sample_env)
   \<and> status (reply (sample_outcome sample_env)) = 200
   \<and> sent (sample_outcome sample_env) = []
   \<and> body_field (reply (sample_outcome sample_env)) ''email_sent'' = Some (JBool False)
   \<and> body_field (reply (sample_outcome sample_env)) ''email_error'' = Some JNull"
proof -
  have v: "verify_signature sample_env (or_empty sample_payload) = Inr (True, None)"
    by (rule sample_verified)
  have h: "field sample_payload ''email'' = None \<or> SMTP_HOST sample_env = []
           \<or> SMTP_USER sample_env = [] \<or> SMTP_PASS sample_env = []"
    by (simp add: sample_env_simps)
  have run: "verify_payment sample_env sample_readings empty_dir sample_payload
       = Inr (sample_outcome sample_env)"
    by (rule sample_run)
  have ok: "status (reply (sample_outcome sample_env)) = 200"
    by (rule sample_sent)
  from no_email_without_address_or_smtp [OF v h, of sample_readings empty_dir] run ok v
  show ?thesis by (auto simp: sample_env_simps)
qed

text \<open>
  C3. Take a request whose signature is verified, whose amount parses and whose order id is
  a string, so that the certificate is written; let the donor have given an address and
  \<^verbatim>\<open>SMTP_HOST\<close>, \<^verbatim>\<open>SMTP_USER\<close>, \<^verbatim>\<open>SMTP_PASS\<close> be set, so that
  \<^verbatim>\<open>send_email_with_attachment\<close> is called; and let that call raise. Then
  \<^verbatim>\<open>verify_payment\<close> still returns the success reply with status 200, with
  \<^verbatim>\<open>email_sent\<close> false and \<^verbatim>\<open>email_error\<close> the text of the exception, and
  the certificate named in \<^verbatim>\<open>certificate_url\<close> is in the directory, where
  \<^verbatim>\<open>serve_certificate\<close> finds it.
\<close>

theorem email_failure_is_not_fatal:
  assumes verified: "verify_signature E (or_empty body) = Inr (True, m)"
    and amount: "py_int E (amount_of body) = Inr amount"
    and order: "field body ''razorpay_order_id'' = Some (JStr oid)"
    and fname: "fname = certificate_filename oid (time_certificate R)"
    and written: "canvas_save E fs fname
           (split_on newline (certificate_text E (name_of body) amount oid (utc_date R)))
         = Inr written"
    and address: "field body ''email'' = Some address" "truthy address"
    and smtp: "SMTP_HOST E \<noteq> []" "SMTP_USER E \<noteq> []" "SMTP_PASS E \<noteq> []"
    and raised: "send_email_with_attachment E (fs(fname \<mapsto> RegularFile written)) address
           email_subject (email_body E (name_of body) amount (JStr oid)) fname = Some e"
  shows "verify_payment E R fs body
         = Inr \<lparr>reply = respond 200 (JsonBody (JObj
                   [(''status'', JStr ''success''),
                    (''message'', JStr (if USE_RAZORPAY E then ''Payment verified''
                                        else ''Dummy payment accepted'')),
                    (''payment'', JObj [(''order_id'', JStr oid), (''amount'', JInt amount)]),
                    (''certificate_url'', JStr (''/certificate/'' @ fname)),
                    (''email_sent'', JBool False),
                    (''email_error'', JStr (exn_text E e))])),
                disk = fs(fname \<mapsto> RegularFile written),
                sent = [(address, email_subject,
                         email_body E (name_of body) amount (JStr oid), fname)]\<rparr>
       \<and> serve_certificate (fs(fname \<mapsto> RegularFile written)) fname
         = respond 200 (FileBody fname written)"
proof -
  have "verify_payment E R fs body
        = Inr (email_and_result E (fs(fname \<mapsto> RegularFile written)) (name_of body) address
                  amount (JStr oid) fname)"
    using verified_block [OF amount order fname written address(1)]
    by (simp add: verify_payment_verified [OF verified] try_except_def)
  moreover have "email_and_result E (fs(fname \<mapsto> RegularFile written)) (name_of body) address
                  amount (JStr oid) fname
       = \<lparr>reply = respond 200 (JsonBody (JObj
                   [(''status'', JStr ''success''),
                    (''message'', JStr (if USE_RAZORPAY E then ''Payment verified''
                                        else ''Dummy payment accepted'')),
                    (''payment'', JObj [(''order_id'', JStr oid), (''amount'', JInt amount)]),
                    (''certificate_url'', JStr (''/certificate/'' @ fname)),
                    (''email_sent'', JBool False),
                    (''email_error'', JStr (exn_text E e))])),
                disk = fs(fname \<mapsto> RegularFile written),
                sent = [(address, email_subject,
                         email_body E (name_of body) amount (JStr oid), fname)]\<rparr>"
    using address(2) smtp raised by (simp add: email_and_result_def Let_def)
  moreover have "serve_certificate (fs(fname \<mapsto> RegularFile written)) fname
         = respond 200 (FileBody fname written)"
    by (simp add: serve_certificate_def path_exists_def send_from_directory_def)
  ultimately show ?thesis by simp
qed

theorem email_failure_is_not_fatal_witness:
  "verify_signature sample_mail_env (or_empty sample_payload) = Inr (True, None)
   \<and> py_int sample_mail_env (amount_of sample_payload) = Inr 500
   \<and> field sample_payload ''razorpay_order_id'' = Some (JStr ''o1'')
   \<and> canvas_save sample_mail_env empty_dir sample_filename
        (split_on newline (certificate_text sample_mail_env (name_of sample_payload) 500 ''o1''
           (utc_date sample_readings)))
     = Inr sample_bytes
   \<and> field sample_payload ''email'' = Some (JStr ''asha@example.com'')
   \<and> send_email_with_attachment sample_mail_env
        (empty_dir(sample_filename \<mapsto> RegularFile sample_bytes))
        (JStr ''asha@example.com'') email_subject
        (email_body sample_mail_env (name_of sample_payload) 500 (JStr ''o1'')) sample_filename
      = Some (LibraryError ''connection refused'')
   \<and> verify_payment sample_mail_env sample_readings empty_dir sample_payload
     = Inr \<lparr>reply = respond 200 (JsonBody (JObj
                   [(''status'', JStr ''success''),
                    (''message'', JStr ''Dummy payment accepted''),
                    (''payment'', JObj [(''order_id'', JStr ''o1''), (''amount'', JInt 500)]),
                    (''certificate_url'', JStr ''/certificate/certificate_o1_1700000000.pdf''),
                    (''email_sent'', JBool False),
                    (''email_error'', JStr ''connection refused'')])),
            disk = empty_dir(sample_filename \<mapsto> RegularFile sample_bytes),
            sent = [(JStr ''asha@example.com'', email_subject,
                     email_body sample_mail_env (JStr ''Asha'') 500 (JStr ''o1''),
                     sample_filename)]\<rparr>
   \<and> serve_certificate (empty_dir(sample_filename \<mapsto> RegularFile sample_bytes)) sample_filename
     = respond 200 (FileBody sample_filename sample_bytes)"
proof -
  have name: "name_of sample_payload = JStr ''Asha''"
    by (simp add: name_of_def field_def sample_payload_def)
  have v: "verify_signature sample_mail_env (or_empty sample_payload) = Inr (True, None)"
    by (rule sample_verified)
  have a: "py_int sample_mail_env (amount_of sample_payload) = Inr 500"
    by (simp add: amount_of_def field_def sample_payload_def)
  have o: "field sample_payload ''razorpay_order_id'' = Some (JStr ''o1'')"
    by (simp add: field_def sample_payload_def)
  have f: "sample_filename = certificate_filename ''o1'' (time_certificate sample_readings)"
    by (simp add: sample_filename_def sample_readings_def)
  have w: "canvas_save sample_mail_env empty_dir sample_filename
        (split_on newline (certificate_text sample_mail_env (name_of sample_payload) 500 ''o1''
           (utc_date sample_readings)))
     = Inr sample_bytes"
    by (simp add: name sample_mail_env_simps sample_canvas sample_bytes_def sample_readings_def
          certificate_text_env [of sample_mail_env])
  have ad: "field sample_payload ''email'' = Some (JStr ''asha@example.com'')"
    by (simp add: field_def sample_payload_def)
  have t: "truthy (JStr ''asha@example.com'')" by simp
  have r: "send_email_with_attachment sample_mail_env
        (empty_dir(sample_filename \<mapsto> RegularFile sample_bytes))
        (JStr ''asha@example.com'') email_subject
        (email_body sample_mail_env (name_of sample_payload) 500 (JStr ''o1'')) sample_filename
      = Some (LibraryError ''connection refused'')"
    by (simp add: name sample_send)
  from email_failure_is_not_fatal [OF v a o f w ad t sample_mail_env_simps(2,3,4) r]
    v a o w ad r
  show ?thesis
    by (simp add: name sample_mail_env_simps sample_filename_text)
qed

text \<open>
  C6 fails on the code. For every request that passes the signature verification and
  whose amount does not parse as an integer, \<^verbatim>\<open>verify_payment\<close> answers 500,
  \<^verbatim>\<open>Internal error generating certificate\<close>, where \<^verbatim>\<open>create_order\<close> answers 400
  to the same amount.
\<close>

theorem unparseable_amount_is_internal_error:
  assumes "verify_signature E (or_empty body) = Inr (True, m)"
    and "unparseable E (amount_of body)"
  shows "\<exists>e. py_int E (amount_of body) = Inl e
       \<and> verify_payment E R fs body =
           Inr \<lparr>reply = respond 500 (JsonBody (JObj
                    [(''error'', JStr ''Internal error generating certificate''),
                     (''details'', JStr (exn_text E e))])),
                disk = fs, sent = []\<rparr>"
proof -
  from assms(1) have "required_fields (or_empty body)" by (rule verified_has_fields)
  then obtain kvs where kvs: "or_empty body = JObj kvs"
    by (cases "or_empty body") (simp_all add: required_fields_def field_truthy_def field_def)
  have amt: "amount_of (or_empty body) = amount_of body"
    by (simp add: amount_of_def)
  from assms(2) obtain e where e: "py_int E (amount_of body) = Inl e"
    by (cases "py_int E (amount_of body)") (simp_all add: unparseable_def)
  with amt kvs have "certificate_and_email E R fs (or_empty body) = Inl e"
    by (simp add: certificate_and_email_def and_then_def amount_of_def field_def)
  with assms(1) e show ?thesis
    by (simp add: verify_payment_verified try_except_def)
qed

theorem unparseable_amount_is_internal_error_witness:
  "verify_signature sample_env (or_empty no_amount_payload) = Inr (True, None)
   \<and> unparseable sample_env (amount_of no_amount_payload)
   \<and> py_int sample_env (amount_of no_amount_payload) = Inl (ValueError ''int'')
   \<and> verify_payment sample_env sample_readings empty_dir no_amount_payload =
           Inr \<lparr>reply = respond 500 (JsonBody (JObj
                    [(''error'', JStr ''Internal error generating certificate''),
                     (''details'', JStr ''bad value: int'')])),
                disk = empty_dir, sent = []\<rparr>"
proof -
  have v: "verify_signature sample_env (or_empty no_amount_payload) = Inr (True, None)"
    by (simp add: verify_signature_def try_except_def and_then_def or_empty_def
          no_amount_payload_def sample_env_simps)
  have p: "py_int sample_env (amount_of no_amount_payload) = Inl (ValueError ''int'')"
    by (simp add: no_amount_payload_def amount_of_def field_def int_of_string_def int_strip_def
          is_space_def is_digit_def sample_env_simps)
  then have u: "unparseable sample_env (amount_of no_amount_payload)"
    by (simp add: unparseable_def)
  from unparseable_amount_is_internal_error [OF v u, of sample_readings empty_dir] v u p
  show ?thesis by (auto simp: sample_env_simps)
qed

subsection \<open>Certificates\<close>



subsection \<open>File names\<close>

lemma below_ten:
  "d < 10 \<Longrightarrow> d = 0 \<or> d = 1 \<or> d = 2 \<or> d = 3 \<or> d = 4 \<or> d = 5 \<or> d = 6 \<or> d = 7 \<or> d = 8
     \<or> d = (9::nat)"
  by arith

lemma digit_char_code: "d < 10 \<Longrightarrow> of_char (digit_char d) = 48 + d"
  by (drule below_ten) (elim disjE; simp add: digit_char_def)

lemma digit_char_inj:
  assumes "d < 10" and "d' < 10" and "digit_char d = digit_char d'"
  shows "d = d'"
proof -
  from assms(3) have "(of_char (digit_char d) :: nat) = of_char (digit_char d')"
    by (rule arg_cong)
  then have "48 + d = 48 + d'"
    by (simp only: digit_char_code [OF assms(1)] digit_char_code [OF assms(2)])
  then show ?thesis by arith
qed

lemma digit_char_is_digit: "d < 10 \<Longrightarrow> is_digit (digit_char d)"
  by (simp add: is_digit_def digit_char_code)

lemma str_nat_nonempty: "str_nat n \<noteq> []"
  by (subst str_nat.simps) simp

lemma str_nat_digits: "\<forall>c \<in> set (str_nat n). is_digit c"
proof (induction n rule: str_nat.induct)
  case (1 n)
  show ?case
  proof (cases "n < 10")
    case True
    then show ?thesis by (subst str_nat.simps) (simp add: digit_char_is_digit)
  next
    case False
    with 1 show ?thesis by (subst str_nat.simps) (simp add: digit_char_is_digit)
  qed
qed

lemma str_nat_inj: "str_nat n = str_nat m \<Longrightarrow> n = m"
proof (induction n arbitrary: m rule: str_nat.induct)
  case (1 n)
  show ?case
  proof (cases "n < 10")
    case small: True
    show ?thesis
    proof (cases "m < 10")
      case True
      with small 1(2) show ?thesis
        by (simp add: str_nat.simps [of n] str_nat.simps [of m] digit_char_inj)
    next
      case False
      with small 1(2) str_nat_nonempty [of "m div 10"] show ?thesis
        by (auto simp: str_nat.simps [of n] str_nat.simps [of m])
    qed
  next
    case big: False
    show ?thesis
    proof (cases "m < 10")
      case True
      with big 1(2) str_nat_nonempty [of "n div 10"] show ?thesis
        by (auto simp: str_nat.simps [of n] str_nat.simps [of m])
    next
      case False
      with big 1(2) have eq: "str_nat (n div 10) = str_nat (m div 10)"
        and d: "digit_char (n mod 10) = digit_char (m mod 10)"
        by (simp_all add: str_nat.simps [of n] str_nat.simps [of m])
      from 1(1) [OF big eq] have "n div 10 = m div 10" .
      moreover from d have "n mod 10 = m mod 10" by (simp add: digit_char_inj)
      ultimately show ?thesis by (metis div_mult_mod_eq)
    qed
  qed
qed

lemma not_in_str_nat: "CHR ''-'' \<notin> set (str_nat n)" "CHR ''_'' \<notin> set (str_nat n)"
proof -
  have "\<not> is_digit (CHR ''-'')" and "\<not> is_digit (CHR ''_'')"
    by (simp_all add: is_digit_def)
  with str_nat_digits [of n] show "CHR ''-'' \<notin> set (str_nat n)" "CHR ''_'' \<notin> set (str_nat n)"
    by blast+
qed

lemma str_nat_not_minus: "str_nat k \<noteq> CHR ''-'' # xs"
proof
  assume "str_nat k = CHR ''-'' # xs"
  then have "CHR ''-'' \<in> set (str_nat k)" by simp
  with not_in_str_nat(1) [of k] show False by contradiction
qed

lemma str_int_inj: "str_int i = str_int j \<Longrightarrow> i = j"
proof -
  assume eq: "str_int i = str_int j"
  show ?thesis
  proof (cases "i < 0")
    case neg: True
    show ?thesis
    proof (cases "j < 0")
      case True
      with neg eq have "str_nat (nat (- i)) = str_nat (nat (- j))" by (simp add: str_int_def)
      then have "nat (- i) = nat (- j)" by (rule str_nat_inj)
      with neg True show ?thesis by simp
    next
      case False
      with neg eq have "str_nat (nat j) = CHR ''-'' # str_nat (nat (- i))"
        by (simp add: str_int_def)
      with str_nat_not_minus show ?thesis by blast
    qed
  next
    case pos: False
    show ?thesis
    proof (cases "j < 0")
      case True
      with pos eq have "str_nat (nat i) = CHR ''-'' # str_nat (nat (- j))"
        by (simp add: str_int_def)
      with str_nat_not_minus show ?thesis by blast
    next
      case False
      with pos eq have "str_nat (nat i) = str_nat (nat j)" by (simp add: str_int_def)
      then have "nat i = nat j" by (rule str_nat_inj)
      with pos False show ?thesis by simp
    qed
  qed
qed

lemma str_int_no_underscore: "CHR ''_'' \<notin> set (str_int i)"
  by (simp add: str_int_def not_in_str_nat)

lemma split_at_last:
  assumes "c \<notin> set ys" and "c \<notin> set ys'" and "xs @ c # ys = xs' @ c # ys'"
  shows "xs = xs' \<and> ys = ys'"
  using assms
proof (induction xs arbitrary: xs')
  case Nil
  then show ?case by (cases xs') auto
next
  case (Cons x xs)
  then show ?case by (cases xs') auto
qed

text \<open>
  C7, as the code has it. The file name is \<^verbatim>\<open>certificate_\<close>, the order id with every
  \<^verbatim>\<open>/\<close> replaced by \<^verbatim>\<open>_\<close>, \<^verbatim>\<open>_\<close>, the clock in whole seconds and
  \<^verbatim>\<open>.pdf\<close>. Two file names are equal exactly when the order ids are equal after
  the replacement and the clocks read the same second; so two certificates made in
  different seconds never share a name.
\<close>

theorem certificate_filename_injective:
  "certificate_filename o1 t1 = certificate_filename o2 t2
     \<longleftrightarrow> replace_slash o1 = replace_slash o2 \<and> t1 = t2"
proof
  assume "certificate_filename o1 t1 = certificate_filename o2 t2"
  then have "replace_slash o1 @ CHR ''_'' # str_int t1 @ ''.pdf''
           = replace_slash o2 @ CHR ''_'' # str_int t2 @ ''.pdf''"
    by (simp add: certificate_filename_def)
  then have "(replace_slash o1 @ CHR ''_'' # str_int t1) @ ''.pdf''
           = (replace_slash o2 @ CHR ''_'' # str_int t2) @ ''.pdf''"
    by simp
  then have "replace_slash o1 @ CHR ''_'' # str_int t1 = replace_slash o2 @ CHR ''_'' # str_int t2"
    by (simp only: append_same_eq)
  with split_at_last [OF str_int_no_underscore str_int_no_underscore]
  have "replace_slash o1 = replace_slash o2 \<and> str_int t1 = str_int t2" by blast
  then show "replace_slash o1 = replace_slash o2 \<and> t1 = t2"
    by (auto dest: str_int_inj)
next
  assume "replace_slash o1 = replace_slash o2 \<and> t1 = t2"
  then show "certificate_filename o1 t1 = certificate_filename o2 t2"
    by (simp add: certificate_filename_def)
qed

theorem certificate_filename_injective_witness:
  "certificate_filename ''a/b'' 5 = certificate_filename ''a_b'' 5
   \<and> certificate_filename ''o1'' 1700000000 \<noteq> certificate_filename ''o1'' 1700000001"
proof -
  have same: "replace_slash ''a/b'' = replace_slash ''a_b''"
    by (simp add: replace_slash_def)
  from certificate_filename_injective [of "''a/b''" 5 "''a_b''" 5] same
  have 1: "certificate_filename ''a/b'' 5 = certificate_filename ''a_b'' 5"
    by blast
  from certificate_filename_injective [of "''o1''" 1700000000 "''o1''" 1700000001]
  have 2: "certificate_filename ''o1'' 1700000000 \<noteq> certificate_filename ''o1'' 1700000001"
    by simp
  from 1 2 show ?thesis by (rule conjI)
qed

text \<open>
  C7 as the specification states it fails: two certificates made for the same order in
  the same second have the same file name, and the second replaces the first.
\<close>

theorem same_second_same_filename:
  "time_certificate sample_readings = 1700000000
   \<and> generate_certificate sample_env sample_readings empty_dir (JStr ''Asha'') 500 (JStr ''o1'')
       = Inr (sample_filename, empty_dir(sample_filename \<mapsto> RegularFile sample_bytes))
   \<and> generate_certificate sample_env sample_readings
        (empty_dir(sample_filename \<mapsto> RegularFile sample_bytes)) (JStr ''Binod'') 900 (JStr ''o1'')
       = Inr (sample_filename, empty_dir(sample_filename \<mapsto> RegularFile second_bytes))
   \<and> sample_filename = ''certificate_o1_1700000000.pdf''"
proof -
  have 1: "time_certificate sample_readings = 1700000000"
    by (simp add: sample_readings_def)
  have 2: "generate_certificate sample_env sample_readings empty_dir (JStr ''Asha'') 500
        (JStr ''o1'')
       = Inr (sample_filename, empty_dir(sample_filename \<mapsto> RegularFile sample_bytes))"
    by (rule sample_generate)
  have 3: "generate_certificate sample_env sample_readings
        (empty_dir(sample_filename \<mapsto> RegularFile sample_bytes)) (JStr ''Binod'') 900 (JStr ''o1'')
       = Inr (sample_filename,
              (empty_dir(sample_filename \<mapsto> RegularFile sample_bytes))
                (sample_filename \<mapsto> RegularFile second_bytes))"
    by (rule sample_generate)
  have 4: "sample_filename = ''certificate_o1_1700000000.pdf''"
    by (rule sample_filename_text)
  from 3 have third: "generate_certificate sample_env sample_readings
        (empty_dir(sample_filename \<mapsto> RegularFile sample_bytes)) (JStr ''Binod'') 900 (JStr ''o1'')
       = Inr (sample_filename, empty_dir(sample_filename \<mapsto> RegularFile second_bytes))"
    by simp
  from 1 2 third 4 show ?thesis by (intro conjI)
qed

end
